theory Spec2Isabelle
  imports Main "HOL-Library.Sublist"
begin

section \<open>Python strings and values\<close>

text \<open>
  The strings of a request are Python 2 \<open>unicode\<close> objects. They are modelled
  as \<open>string\<close>: a character is a code point from 0 to 255 (Latin-1), so the
  model covers the strings made of these code points, and the string methods
  the sources use (\<open>lower\<close>, \<open>upper\<close>, \<open>strip\<close>, \<open>split(',')\<close>, \<open>find\<close>) are
  the \<open>unicode\<close> methods on them.
\<close>

text \<open>The capital letters below 256 (\<open>A\<close> to \<open>Z\<close>, U+00C0 to U+00DE without
  the multiplication sign U+00D7), and the small letter of each, 32 above it.\<close>

definition unicode_uppercase :: string where
  "unicode_uppercase =
     ''ABCDEFGHIJKLMNOPQRSTUVWXYZ'' @
     [CHR 0xC0, CHR 0xC1, CHR 0xC2, CHR 0xC3, CHR 0xC4, CHR 0xC5, CHR 0xC6, CHR 0xC7,
      CHR 0xC8, CHR 0xC9, CHR 0xCA, CHR 0xCB, CHR 0xCC, CHR 0xCD, CHR 0xCE, CHR 0xCF,
      CHR 0xD0, CHR 0xD1, CHR 0xD2, CHR 0xD3, CHR 0xD4, CHR 0xD5, CHR 0xD6, CHR 0xD8,
      CHR 0xD9, CHR 0xDA, CHR 0xDB, CHR 0xDC, CHR 0xDD, CHR 0xDE]"

definition unicode_lowercase :: string where
  "unicode_lowercase =
     ''abcdefghijklmnopqrstuvwxyz'' @
     [CHR 0xE0, CHR 0xE1, CHR 0xE2, CHR 0xE3, CHR 0xE4, CHR 0xE5, CHR 0xE6, CHR 0xE7,
      CHR 0xE8, CHR 0xE9, CHR 0xEA, CHR 0xEB, CHR 0xEC, CHR 0xED, CHR 0xEE, CHR 0xEF,
      CHR 0xF0, CHR 0xF1, CHR 0xF2, CHR 0xF3, CHR 0xF4, CHR 0xF5, CHR 0xF6, CHR 0xF8,
      CHR 0xF9, CHR 0xFA, CHR 0xFB, CHR 0xFC, CHR 0xFD, CHR 0xFE]"

definition lower_char :: "char \<Rightarrow> char" where
  "lower_char c =
     (case map_of (zip unicode_uppercase unicode_lowercase) c of
        Some d \<Rightarrow> d
      | None \<Rightarrow> c)"

text \<open>
  The small letters U+00B5 (micro sign) and U+00FF have their capitals above
  255 (U+039C, U+0178): a string holding one of them has no upper-cased form
  among the strings of this model, and \<open>upper_char\<close> is the code's \<open>upper()\<close>
  on every other character. The sharp s U+00DF has no capital.
\<close>

definition upper_char :: "char \<Rightarrow> char" where
  "upper_char c =
     (case map_of (zip unicode_lowercase unicode_uppercase) c of
        Some d \<Rightarrow> d
      | None \<Rightarrow> c)"

text \<open>\<open>s.lower()\<close> and \<open>s.upper()\<close>.\<close>

definition lower :: "string \<Rightarrow> string" where
  "lower s = map lower_char s"

definition upper :: "string \<Rightarrow> string" where
  "upper s = map upper_char s"

text \<open>The characters \<open>s.strip()\<close> removes from a \<open>unicode\<close> string, below
  256: tab, newline, vertical tab, form feed, carriage return, the four
  separators U+001C to U+001F, space, next line U+0085 and no-break space
  U+00A0.\<close>

definition whitespace :: "char \<Rightarrow> bool" where
  "whitespace c \<longleftrightarrow>
     c \<in> set [CHR 0x09, CHR 0x0A, CHR 0x0B, CHR 0x0C, CHR 0x0D,
              CHR 0x1C, CHR 0x1D, CHR 0x1E, CHR 0x1F, CHR 0x20, CHR 0x85, CHR 0xA0]"

definition strip :: "string \<Rightarrow> string" where
  "strip s = rev (dropWhile whitespace (rev (dropWhile whitespace s)))"

text \<open>\<open>s.split(',')\<close>: never the empty list; the empty string gives \<open>['']\<close>.\<close>

fun split_comma :: "string \<Rightarrow> string list" where
  "split_comma [] = [[]]"
| "split_comma (c # cs) =
     (if c = CHR '','' then [] # split_comma cs
      else (case split_comma cs of
              w # ws \<Rightarrow> (c # w) # ws
            | [] \<Rightarrow> [[c]]))"

text \<open>\<open>s.find(sub)\<close>: the index of the first occurrence, or \<open>-1\<close>.\<close>

fun find_from :: "nat \<Rightarrow> string \<Rightarrow> string \<Rightarrow> int" where
  "find_from i sub [] = (if sub = [] then int i else - 1)"
| "find_from i sub (c # cs) =
     (if prefix sub (c # cs) then int i else find_from (Suc i) sub cs)"

definition find :: "string \<Rightarrow> string \<Rightarrow> int" where
  "find s sub = find_from 0 sub s"

text \<open>The values a caller can pass where a string is expected.\<close>

datatype pyobj = PyNone | PyBool bool | PyInt int | PyStr string

text \<open>The exceptions the sources raise or let through. \<open>OtherException\<close>
  stands for anything the handlers of this program do not name (a transport
  failure such as \<open>URLError\<close>).\<close>

datatype exn =
    TypeError string
  | KeyError string
  | DoesNotExist
  | MultipleObjectsReturned
  | NewsletterNoResultsException
  | AttributeError string
  | PyException string
  | NewsletterException string
  | UnauthorizedException string
  | OtherException string

text \<open>Sequencing of a step that may raise: the exception of the first step is
  the exception of the whole.\<close>

definition raising :: "exn + 'a \<Rightarrow> ('a \<Rightarrow> exn + 'b) \<Rightarrow> exn + 'b" where
  "raising r f = (case r of Inl ex \<Rightarrow> Inl ex | Inr v \<Rightarrow> f v)"

section \<open>news/views.py: language codes\<close>

text \<open>
  \<open>language_code_is_valid(code)\<close>. The list \<open>newsletter_languages()\<close> comes from
  the newsletter table and is a parameter here.
\<close>

definition language_code_is_valid :: "string list \<Rightarrow> pyobj \<Rightarrow> exn + bool" where
  "language_code_is_valid newsletter_languages code =
     (case code of
        PyStr s \<Rightarrow>
          (let langs = [] # map lower newsletter_languages;
               code = lower s
           in if code \<in> set langs then Inr True
              else if length code \<in> set [2, 5] then
                (let code2 = take 2 code
                 in if list_ex (\<lambda>lang. code2 = take 2 lang) langs then Inr True
                    else Inr False)
              else Inr False)
      | _ \<Rightarrow> Inl (TypeError ''Language code must be a string''))"

section \<open>news/views.py: looking a subscriber up in ExactTarget\<close>

text \<open>
  A row returned by \<open>ExactTargetDataExt.get_record\<close> is a dictionary from field
  names to values. Values are modelled as strings; a remote value that is
  absent (\<open>None\<close>) is the empty string, which is as falsy as \<open>None\<close> in the
  \<open>or\<close> defaults of \<open>look_for_user\<close>.
\<close>

type_synonym et_record = "string \<rightharpoonup> string"

text \<open>Error codes of the \<open>basket.errors\<close> module of basket-client.\<close>

datatype error_code =
    BASKET_NETWORK_FAILURE
  | BASKET_INVALID_EMAIL
  | BASKET_UNKNOWN_EMAIL
  | BASKET_UNKNOWN_TOKEN
  | BASKET_USAGE_ERROR
  | BASKET_EMAIL_PROVIDER_AUTH_FAILURE
  | BASKET_AUTH_ERROR
  | BASKET_SSL_REQUIRED
  | BASKET_INVALID_NEWSLETTER
  | BASKET_INVALID_LANGUAGE

text \<open>
  What the views take from outside this file: the three database names of
  \<open>settings\<close>, the functions of \<open>news/newsletters.py\<close>, the remote call
  \<open>get_record(database, key, fields, key_field)\<close> (\<open>Inl\<close> is the exception it
  raises), the token a new \<open>Subscriber\<close> row receives and a message text of
  \<open>news/tasks.py\<close>.
\<close>

record settings =
  EXACTTARGET_DATA :: string
  EXACTTARGET_OPTIN_STAGE :: string
  EXACTTARGET_CONFIRMATION :: string

record env = settings +
  newsletter_slugs :: "string list"
  newsletter_fields :: "string list"
  newsletter_languages :: "string list"
  slug_to_vendor_id :: "string \<Rightarrow> string"
  get_record :: "string \<Rightarrow> string option \<Rightarrow> string list \<Rightarrow> string \<Rightarrow> exn + et_record"
  new_token :: string
  MSG_EMAIL_OR_TOKEN_REQUIRED :: string

text \<open>The dictionary \<open>look_for_user\<close> builds, and the three keys
  \<open>get_user_data\<close> adds to it.\<close>

record found_user =
  ud_status :: string
  ud_email :: string
  ud_format :: string
  ud_country :: string
  ud_lang :: string
  ud_token :: string
  ud_created_date :: string
  ud_newsletters :: "string list"

record user_data = found_user +
  ud_confirmed :: bool
  ud_pending :: bool
  ud_master :: bool

text \<open>\<open>look_for_user\<close> returns \<open>None\<close>, \<open>True\<close> or a dictionary.\<close>

datatype look_result = NotFound | FoundTrue | FoundUser found_user

text \<open>\<open>get_user_data\<close> returns \<open>None\<close>, the user's dictionary, or a dictionary
  with \<open>status = 'error'\<close>, \<open>status_code\<close>, \<open>desc\<close> and \<open>code\<close>.\<close>

datatype user_data_result =
    UserData user_data
  | ErrorData nat string error_code

text \<open>Truth value of \<open>None\<close> or a string.\<close>

definition truthy :: "string option \<Rightarrow> bool" where
  "truthy v = (case v of None \<Rightarrow> False | Some s \<Rightarrow> s \<noteq> [])"

text \<open>\<open>x or d\<close> on a string.\<close>

definition or_default :: "string \<Rightarrow> string \<Rightarrow> string" where
  "or_default x d = (if x = [] then d else x)"

text \<open>\<open>user[key]\<close>.\<close>

definition getitem :: "et_record \<Rightarrow> string \<Rightarrow> exn + string" where
  "getitem user k = (case user k of None \<Rightarrow> Inl (KeyError k) | Some v \<Rightarrow> Inr v)"

text \<open>\<open>user.get(key, default)\<close>.\<close>

definition get_default :: "et_record \<Rightarrow> string \<Rightarrow> string \<Rightarrow> string" where
  "get_default user k d = (case user k of None \<Rightarrow> d | Some v \<Rightarrow> v)"

definition look_for_user ::
  "env \<Rightarrow> string \<Rightarrow> string option \<Rightarrow> string option \<Rightarrow> string list \<Rightarrow> exn + look_result" where
  "look_for_user e database email token field_list =
     (case get_record e database (if truthy email then email else token) field_list
             (if truthy email then ''EMAIL_ADDRESS_'' else ''TOKEN'') of
        Inl NewsletterNoResultsException \<Rightarrow> Inr NotFound
      | Inl ex \<Rightarrow> Inl ex
      | Inr user \<Rightarrow>
          if database = EXACTTARGET_CONFIRMATION e then Inr FoundTrue
          else
            (let newsletters =
                   filter (\<lambda>slug. get_default user (slug_to_vendor_id e slug @ ''_FLG'') ''N'' = ''Y'')
                     (newsletter_slugs e)
             in raising (getitem user ''EMAIL_ADDRESS_'') (\<lambda>v_email.
                raising (getitem user ''EMAIL_FORMAT_'') (\<lambda>v_format.
                raising (getitem user ''COUNTRY_'') (\<lambda>v_country.
                raising (getitem user ''LANGUAGE_ISO2'') (\<lambda>v_lang.
                raising (getitem user ''TOKEN'') (\<lambda>v_token.
                raising (getitem user ''CREATED_DATE_'') (\<lambda>v_created.
                  Inr (FoundUser
                    \<lparr>ud_status = ''ok'',
                     ud_email = v_email,
                     ud_format = or_default v_format ''H'',
                     ud_country = or_default v_country [],
                     ud_lang = or_default v_lang [],
                     ud_token = v_token,
                     ud_created_date = v_created,
                     ud_newsletters = newsletters\<rparr>)))))))))"

subsection \<open>The local subscriber table\<close>

record subscriber =
  sub_email :: string
  sub_token :: string

type_synonym subscribers = "subscriber list"

text \<open>
  Modelled from the spec: \<open>news/models.py\<close> (the \<open>Subscriber\<close> model and its
  manager) is not among the sources. The spec gives the manager as
  \<open>get(token=..) / get(email=..) -> Subscriber | NotFound\<close>,
  \<open>get_or_create(email) -> (Subscriber, created)\<close> and \<open>sync(email, remote_token)\<close>,
  which "reconciles a locally-missing or token-mismatched record against a
  remote truth"; \<open>email\<close> is the unique key of a row.
\<close>

definition matches :: "string option \<Rightarrow> string option \<Rightarrow> subscriber \<Rightarrow> bool" where
  "matches token email s \<longleftrightarrow>
     (case token of None \<Rightarrow> True | Some t \<Rightarrow> sub_token s = t) \<and>
     (case email of None \<Rightarrow> True | Some m \<Rightarrow> sub_email s = m)"

definition objects_get :: "subscribers \<Rightarrow> string option \<Rightarrow> string option \<Rightarrow> exn + subscriber" where
  "objects_get db token email =
     (case filter (matches token email) db of
        [] \<Rightarrow> Inl DoesNotExist
      | [s] \<Rightarrow> Inr s
      | _ \<Rightarrow> Inl MultipleObjectsReturned)"

definition get_or_create :: "subscribers \<Rightarrow> string \<Rightarrow> string \<Rightarrow> subscriber \<times> bool \<times> subscribers" where
  "get_or_create db email fresh_token =
     (case filter (\<lambda>s. sub_email s = email) db of
        s # _ \<Rightarrow> (s, False, db)
      | [] \<Rightarrow>
          (let s = \<lparr>sub_email = email, sub_token = fresh_token\<rparr>
           in (s, True, db @ [s])))"

definition get_and_sync :: "subscribers \<Rightarrow> string \<Rightarrow> string \<Rightarrow> subscribers" where
  "get_and_sync db email token =
     (if list_ex (\<lambda>s. sub_email s = email) db
      then map (\<lambda>s. if sub_email s = email then s\<lparr>sub_token := token\<rparr> else s) db
      else db @ [\<lparr>sub_email = email, sub_token = token\<rparr>])"

subsection \<open>get_user_data\<close>

text \<open>The field list \<open>get_user_data\<close> asks for.\<close>

definition user_fields :: "env \<Rightarrow> string list" where
  "user_fields e =
     [''EMAIL_ADDRESS_'', ''EMAIL_FORMAT_'', ''COUNTRY_'', ''LANGUAGE_ISO2'',
      ''TOKEN'', ''CREATED_DATE_'']
     @ map (\<lambda>nl. nl @ ''_FLG'') (newsletter_fields e)"

text \<open>\<open>user_data['confirmed'] = ...\<close> and the two assignments after it; on
  \<open>True\<close> the item assignment raises \<open>TypeError\<close>.\<close>

definition set_flags :: "look_result \<Rightarrow> bool \<Rightarrow> bool \<Rightarrow> bool \<Rightarrow> exn + user_data" where
  "set_flags r confirmed pending master =
     (case r of
        FoundUser u \<Rightarrow>
          Inr (found_user.extend u
                 \<lparr>ud_confirmed = confirmed, ud_pending = pending, ud_master = master\<rparr>)
      | _ \<Rightarrow> Inl (TypeError ''object does not support item assignment''))"

text \<open>The body of the \<open>try\<close> statement: \<open>Inr None\<close> is the early \<open>return None\<close>.\<close>

definition get_user_data_try ::
  "env \<Rightarrow> string option \<Rightarrow> string option \<Rightarrow> exn + user_data option" where
  "get_user_data_try e token email =
     (let field_list = user_fields e;
          confirmed = True;
          pending = False;
          master = True
      in case look_for_user e (EXACTTARGET_DATA e) email token field_list of
           Inl ex \<Rightarrow> Inl ex
         | Inr NotFound \<Rightarrow>
             (let master = False;
                  confirmed = False
              in case look_for_user e (EXACTTARGET_OPTIN_STAGE e) email token field_list of
                   Inl ex \<Rightarrow> Inl ex
                 | Inr NotFound \<Rightarrow> Inr None
                 | Inr user_data \<Rightarrow>
                     (case look_for_user e (EXACTTARGET_CONFIRMATION e) email token [''Token''] of
                        Inl ex \<Rightarrow> Inl ex
                      | Inr c \<Rightarrow>
                          (let confirmed = (if c \<noteq> NotFound then True else confirmed)
                           in map_sum id Some (set_flags user_data confirmed pending master))))
         | Inr user_data \<Rightarrow> map_sum id Some (set_flags user_data confirmed pending master))"

text \<open>
  \<open>get_user_data(token, email, sync_data)\<close> on the subscriber table \<open>db\<close>: the
  two \<open>except\<close> clauses turn the platform's exceptions into an error
  dictionary, every other exception propagates.
\<close>

definition get_user_data ::
  "env \<Rightarrow> subscribers \<Rightarrow> string option \<Rightarrow> string option \<Rightarrow> bool
     \<Rightarrow> exn + (user_data_result option \<times> subscribers)" where
  "get_user_data e db token email sync_data =
     (case get_user_data_try e token email of
        Inl (NewsletterException msg) \<Rightarrow>
          Inr (Some (ErrorData 400 msg BASKET_NETWORK_FAILURE), db)
      | Inl (UnauthorizedException msg) \<Rightarrow>
          Inr (Some (ErrorData 500 ''Email service provider auth failure''
                       BASKET_EMAIL_PROVIDER_AUTH_FAILURE), db)
      | Inl ex \<Rightarrow> Inl ex
      | Inr None \<Rightarrow> Inr (None, db)
      | Inr (Some u) \<Rightarrow>
          Inr (Some (UserData u),
               if sync_data then get_and_sync db (ud_email u) (ud_token u) else db))"

section \<open>Vocabulary of the properties and example inputs\<close>

text \<open>A subscriber is in a database when \<open>get_record\<close>, asked the way
  \<open>look_for_user\<close> asks, returns a row; it is not when \<open>get_record\<close> raises
  \<open>NewsletterNoResultsException\<close>.\<close>

definition in_database ::
  "env \<Rightarrow> string \<Rightarrow> string option \<Rightarrow> string option \<Rightarrow> string list \<Rightarrow> et_record \<Rightarrow> bool" where
  "in_database e database email token field_list user \<longleftrightarrow>
     get_record e database (if truthy email then email else token) field_list
       (if truthy email then ''EMAIL_ADDRESS_'' else ''TOKEN'') = Inr user"

definition not_in_database ::
  "env \<Rightarrow> string \<Rightarrow> string option \<Rightarrow> string option \<Rightarrow> string list \<Rightarrow> bool" where
  "not_in_database e database email token field_list \<longleftrightarrow>
     get_record e database (if truthy email then email else token) field_list
       (if truthy email then ''EMAIL_ADDRESS_'' else ''TOKEN'') = Inl NewsletterNoResultsException"

text \<open>The row carries the six fields \<open>look_for_user\<close> reads with \<open>user[...]\<close>.\<close>

definition has_user_fields :: "et_record \<Rightarrow> bool" where
  "has_user_fields user \<longleftrightarrow>
     list_all (\<lambda>k. user k \<noteq> None)
       [''EMAIL_ADDRESS_'', ''EMAIL_FORMAT_'', ''COUNTRY_'', ''LANGUAGE_ISO2'',
        ''TOKEN'', ''CREATED_DATE_'']"

text \<open>
  Equality of two strings "case-insensitively", in the words of the
  properties: the strings have the same length and, position by position,
  the same character or a capital letter and its small letter.
\<close>

definition same_letter :: "char \<Rightarrow> char \<Rightarrow> bool" where
  "same_letter c d \<longleftrightarrow>
     c = d
     \<or> (c, d) \<in> set (zip unicode_uppercase unicode_lowercase)
     \<or> (d, c) \<in> set (zip unicode_uppercase unicode_lowercase)"

definition same_ignoring_case :: "string \<Rightarrow> string \<Rightarrow> bool" where
  "same_ignoring_case a b \<longleftrightarrow> list_all2 same_letter a b"

text \<open>The row of the test suite's \<open>setUp\<close>, and a catalogue with its one
  newsletter.\<close>

definition example_row :: et_record where
  "example_row =
     [''EMAIL_ADDRESS_'' \<mapsto> ''dude@example.com'',
      ''EMAIL_FORMAT_'' \<mapsto> ''H'',
      ''COUNTRY_'' \<mapsto> ''us'',
      ''LANGUAGE_ISO2'' \<mapsto> ''en'',
      ''TOKEN'' \<mapsto> ''token'',
      ''CREATED_DATE_'' \<mapsto> ''2013-07-01'',
      ''TITLE_UNKNOWN_FLG'' \<mapsto> ''Y'']"

definition example_env ::
  "(string \<Rightarrow> string option \<Rightarrow> string list \<Rightarrow> string \<Rightarrow> exn + et_record) \<Rightarrow> env" where
  "example_env gr =
     \<lparr>EXACTTARGET_DATA = ''Master_Subscribers'',
      EXACTTARGET_OPTIN_STAGE = ''Double_Opt_In'',
      EXACTTARGET_CONFIRMATION = ''Confirmation'',
      newsletter_slugs = [''slug''],
      newsletter_fields = [''TITLE_UNKNOWN''],
      newsletter_languages = [''en-US'', ''fr''],
      slug_to_vendor_id = (\<lambda>slug. if slug = ''slug'' then ''TITLE_UNKNOWN'' else []),
      get_record = gr,
      new_token = ''new-token'',
      MSG_EMAIL_OR_TOKEN_REQUIRED = ''Must have valid token OR email for this request''\<rparr>"

text \<open>Four remote platforms: one that knows nobody, one that has the
  subscriber in the double-opt-in database only, one that has them there and
  in the confirmation database, one that has them in the master database.\<close>

definition nobody :: "string \<Rightarrow> string option \<Rightarrow> string list \<Rightarrow> string \<Rightarrow> exn + et_record" where
  "nobody database key field_list key_field = Inl NewsletterNoResultsException"

definition pending_only :: "string \<Rightarrow> string option \<Rightarrow> string list \<Rightarrow> string \<Rightarrow> exn + et_record" where
  "pending_only database key field_list key_field =
     (if database = ''Double_Opt_In'' \<and> key = Some ''dude@example.com''
         \<and> key_field = ''EMAIL_ADDRESS_''
      then Inr example_row
      else Inl NewsletterNoResultsException)"

definition pending_and_confirmed ::
  "string \<Rightarrow> string option \<Rightarrow> string list \<Rightarrow> string \<Rightarrow> exn + et_record" where
  "pending_and_confirmed database key field_list key_field =
     (if database = ''Double_Opt_In'' \<and> key = Some ''dude@example.com''
         \<and> key_field = ''EMAIL_ADDRESS_''
      then Inr example_row
      else if database = ''Confirmation'' \<and> key = Some ''dude@example.com''
         \<and> key_field = ''EMAIL_ADDRESS_''
      then Inr [''Token'' \<mapsto> ''token'']
      else Inl NewsletterNoResultsException)"

definition in_master :: "string \<Rightarrow> string option \<Rightarrow> string list \<Rightarrow> string \<Rightarrow> exn + et_record" where
  "in_master database key field_list key_field =
     (if database = ''Master_Subscribers'' \<and> key = Some ''dude@example.com''
         \<and> key_field = ''EMAIL_ADDRESS_''
      then Inr example_row
      else Inl NewsletterNoResultsException)"

section \<open>apps/news/tasks.py: update_user\<close>

text \<open>The type of action to take on a user with a list of newsletters.\<close>

definition SUBSCRIBE :: int where "SUBSCRIBE = 1"
definition UNSUBSCRIBE :: int where "UNSUBSCRIBE = 2"
definition SET :: int where "SET = 3"

text \<open>Double opt-in languages and their confirmation messages.\<close>

definition CONFIRM_SENDS :: "string \<rightharpoonup> string" where
  "CONFIRM_SENDS =
     [''es'' \<mapsto> ''es_confirmation_email'',
      ''es-ES'' \<mapsto> ''es_confirmation_email'',
      ''de'' \<mapsto> ''de_confirmation_email'',
      ''fr'' \<mapsto> ''fr_confirmation_email'',
      ''pt'' \<mapsto> ''pt_br_confirmation_email'',
      ''pt-BR'' \<mapsto> ''pt_br_confirmation_email'']"

text \<open>
  The two remote calls of the task: \<open>add_record(target, record.keys(),
  record.values())\<close>, with the dictionary \<open>record\<close> as one map, and
  \<open>trigger_send(welcome, email, token, format)\<close>.
\<close>

datatype call =
    AddRecord string et_record
  | TriggerSend string string string string

fun is_add_record :: "call \<Rightarrow> bool" where
  "is_add_record (AddRecord target record) = True"
| "is_add_record (TriggerSend welcome email token fmt) = False"

text \<open>
  What the task takes from outside this file: the database names of
  \<open>settings\<close>; \<open>newsletter_field(nl)\<close> and \<open>newsletter_names()\<close> of
  \<open>newsletters.py\<close> (\<open>None\<close> and the empty string are the falsy answers of
  \<open>newsletter_field\<close>); the string \<open>date.today().strftime('%Y-%m-%d')\<close>; the value
  of the \<open>n\<close>-th call of \<open>gmttime()\<close>; the string of \<open>uuid.uuid4()\<close>; and the
  remote platform, which answers a call, given the calls made before it,
  with success (\<open>None\<close>) or with the exception it raises.
\<close>

record task_env = settings +
  newsletter_field :: "string \<Rightarrow> string option"
  newsletter_names :: "string list"
  today :: string
  gmttime :: "nat \<Rightarrow> string"
  uuid4 :: string
  exacttarget :: "call list \<Rightarrow> call \<Rightarrow> exn option"

text \<open>One \<open>for nl in ...\<close> loop of \<open>parse_newsletters\<close>, writing \<open>flag\<close>.\<close>

fun set_flag :: "task_env \<Rightarrow> string \<Rightarrow> string list \<Rightarrow> et_record \<Rightarrow> et_record" where
  "set_flag e flag [] record = record"
| "set_flag e flag (nl # nls) record =
     set_flag e flag nls
       (case newsletter_field e nl of
          None \<Rightarrow> record
        | Some name \<Rightarrow>
            if name \<noteq> []
            then record(name @ ''_FLG'' \<mapsto> flag, name @ ''_DATE'' \<mapsto> today e)
            else record)"

text \<open>
  \<open>parse_newsletters(record, type, newsletters)\<close>, returning the updated
  \<open>record\<close>. For \<open>SET\<close> the loop runs over the set difference
  \<open>set(newsletter_names()) - set(newsletters)\<close>, here in catalogue order.
\<close>

definition parse_newsletters :: "task_env \<Rightarrow> et_record \<Rightarrow> int \<Rightarrow> string \<Rightarrow> et_record" where
  "parse_newsletters e record type newsletters =
     (let newsletters = map strip (split_comma newsletters);
          record = (if type = SUBSCRIBE \<or> type = SET
                    then set_flag e ''Y'' newsletters record
                    else record)
      in if type = UNSUBSCRIBE \<or> type = SET then
           (let unsubs = (if type = SET
                          then filter (\<lambda>nl. nl \<notin> set newsletters) (remdups (newsletter_names e))
                          else newsletters)
            in set_flag e ''N'' unsubs record)
         else record)"

definition extra_fields :: "(string \<times> string) list" where
  "extra_fields =
     [(''country'', ''COUNTRY_''), (''lang'', ''LANGUAGE_ISO2''), (''source_url'', ''SOURCE_URL'')]"

text \<open>The loop "Optionally add more fields".\<close>

fun add_extra_fields :: "et_record \<Rightarrow> (string \<times> string) list \<Rightarrow> et_record \<Rightarrow> et_record" where
  "add_extra_fields data [] record = record"
| "add_extra_fields data ((field, name) # rest) record =
     add_extra_fields data rest
       (case data field of None \<Rightarrow> record | Some v \<Rightarrow> record(name \<mapsto> v))"

text \<open>The value stored under \<open>EMAIL_FORMAT_\<close>.\<close>

definition email_format :: "et_record \<Rightarrow> string" where
  "email_format data =
     (let fmt = lower (get_default data ''format'' ''H'');
          fmt = (if fmt = ''text'' then ''T'' else if fmt = ''html'' then ''H'' else fmt)
      in upper fmt)"

text \<open>Lines 89 to 109: the record before the newsletter flags are set.\<close>

definition base_fields :: "et_record \<Rightarrow> string \<Rightarrow> et_record" where
  "base_fields data email =
     (let record = [''EMAIL_ADDRESS_'' \<mapsto> email, ''EMAIL_PERMISSION_STATUS_'' \<mapsto> ''I''];
          record = add_extra_fields data extra_fields record
      in record(''EMAIL_FORMAT_'' \<mapsto> email_format data))"

text \<open>
  Modelled from the spec: \<open>models.py\<close> is not among the sources; \<open>sub.save()\<close>
  writes the row whose key is the subscriber's email.
\<close>

definition save :: "subscribers \<Rightarrow> subscriber \<Rightarrow> subscribers" where
  "save db s = map (\<lambda>r. if sub_email r = sub_email s then s else r) db"

text \<open>
  The state of \<open>update_user\<close> when it reaches its first \<open>try\<close>: the target
  database, the record, the welcome message (if any), the number of
  \<open>gmttime()\<close> calls made and the subscriber table.
\<close>

record prepared =
  p_target :: string
  p_record :: et_record
  p_welcome :: "string option"
  p_clock :: nat
  p_subscribers :: subscribers

text \<open>
  Lines 84 to 144 of \<open>update_user(data, authed_email, type, optin)\<close>. The
  parameter check at the top only logs; \<open>data['email']\<close> raises \<open>KeyError\<close>
  when the request has no email.
\<close>

definition prepare :: "task_env \<Rightarrow> subscribers \<Rightarrow> et_record \<Rightarrow> int \<Rightarrow> exn + prepared" where
  "prepare e db data type =
     raising (getitem data ''email'') (\<lambda>email.
       let record = base_fields data email;
           record = parse_newsletters e record type (get_default data ''newsletters'' []);
           (sub, created, db) = get_or_create db email [];
           sub = (if created then sub\<lparr>sub_token := uuid4 e\<rparr> else sub);
           db = (if created then save db sub else db);
           record = (if created
                     then record(''TOKEN'' \<mapsto> sub_token sub, ''CREATED_DATE_'' \<mapsto> gmttime e 0)
                     else record(''TOKEN'' \<mapsto> sub_token sub));
           clock = (if created then 1 else 0);
           record = record(''MODIFIED_DATE_'' \<mapsto> gmttime e clock);
           clock = Suc clock;
           lang = record ''LANGUAGE_ISO2'';
           confirm = (case lang of None \<Rightarrow> None | Some l \<Rightarrow> CONFIRM_SENDS l)
       in if confirm \<noteq> None \<and> type = SUBSCRIBE then
            raising (getitem record ''TOKEN'') (\<lambda>tok.
            raising (getitem record ''EMAIL_ADDRESS_'') (\<lambda>addr.
              Inr \<lparr>p_target = EXACTTARGET_OPTIN_STAGE e,
                   p_record = record(''SubscriberKey'' \<mapsto> tok, ''EmailAddress'' \<mapsto> addr),
                   p_welcome = confirm,
                   p_clock = clock,
                   p_subscribers = db\<rparr>))
          else
            Inr \<lparr>p_target = EXACTTARGET_DATA e,
                 p_record = record,
                 p_welcome = (if data ''trigger_welcome'' = Some ''Y'' then Some ''39'' else None),
                 p_clock = clock,
                 p_subscribers = db\<rparr>)"

text \<open>The message of an exception the clause
  \<open>except (NewsletterException, UnauthorizedException), e\<close> catches.\<close>

definition caught :: "exn \<Rightarrow> string option" where
  "caught ex =
     (case ex of
        NewsletterException message \<Rightarrow> Some message
      | UnauthorizedException message \<Rightarrow> Some message
      | _ \<Rightarrow> None)"

text \<open>
  The first \<open>try\<close> statement (lines 146 to 162): the exception that leaves it
  (if any), the remote calls made and the record. \<open>handle_exception\<close> raises
  the exception it is given; the second \<open>add_record\<close> is under no handler.
\<close>

definition add_record_recover ::
  "task_env \<Rightarrow> prepared \<Rightarrow> exn option \<times> call list \<times> et_record" where
  "add_record_recover e p =
     (let c1 = AddRecord (p_target p) (p_record p)
      in case exacttarget e [] c1 of
           None \<Rightarrow> (None, [c1], p_record p)
         | Some ex \<Rightarrow>
             (case caught ex of
                None \<Rightarrow> (Some ex, [c1], p_record p)
              | Some message \<Rightarrow>
                  if find message ''CREATED_DATE_'' \<noteq> - 1 then
                    (let record = (p_record p)(''CREATED_DATE_'' \<mapsto> gmttime e (p_clock p));
                         c2 = AddRecord (p_target p) record
                     in (exacttarget e [c1] c2, [c1, c2], record))
                  else (Some ex, [c1], p_record p)))"

text \<open>The second \<open>try\<close> statement (lines 166 to 173), after the calls \<open>log\<close>.\<close>

definition send_welcome ::
  "task_env \<Rightarrow> string option \<Rightarrow> call list \<Rightarrow> et_record \<Rightarrow> exn option \<times> call list" where
  "send_welcome e welcome log record =
     (case welcome of
        None \<Rightarrow> (None, log)
      | Some w \<Rightarrow>
          if w = [] then (None, log)
          else
            (case getitem record ''EMAIL_ADDRESS_'' of
               Inl ex \<Rightarrow> (Some ex, log)
             | Inr addr \<Rightarrow>
                 (case getitem record ''TOKEN'' of
                    Inl ex \<Rightarrow> (Some ex, log)
                  | Inr tok \<Rightarrow>
                      (let c = TriggerSend w addr tok (get_default record ''EMAIL_FORMAT_'' ''H'')
                       in (exacttarget e log c, log @ [c])))))"

text \<open>What a run of the task leaves behind: the exception that leaves
  \<open>update_user\<close> (\<open>None\<close> when it returns) and the remote calls it made, in
  order.\<close>

record outcome =
  raised :: "exn option"
  calls :: "call list"

definition update_user ::
  "task_env \<Rightarrow> subscribers \<Rightarrow> et_record \<Rightarrow> string option \<Rightarrow> int \<Rightarrow> bool \<Rightarrow> outcome" where
  "update_user e db data authed_email type optin =
     (case prepare e db data type of
        Inl ex \<Rightarrow> \<lparr>raised = Some ex, calls = []\<rparr>
      | Inr p \<Rightarrow>
          (case add_record_recover e p of
             (Some ex, log, record) \<Rightarrow> \<lparr>raised = Some ex, calls = log\<rparr>
           | (None, log, record) \<Rightarrow>
               (case send_welcome e (p_welcome p) log record of
                  (r, log') \<Rightarrow> \<lparr>raised = r, calls = log'\<rparr>)))"

subsection \<open>Example inputs of update_user\<close>

text \<open>A catalogue of two newsletters, and remote platforms: one that accepts
  every call, one that rejects a record without \<open>CREATED_DATE_\<close>, one that
  rejects every record naming that field, one that rejects every record for
  another reason, and one that accepts records and fails every trigger.\<close>

definition example_task_env :: "(call list \<Rightarrow> call \<Rightarrow> exn option) \<Rightarrow> task_env" where
  "example_task_env et =
     \<lparr>EXACTTARGET_DATA = ''Master_Subscribers'',
      EXACTTARGET_OPTIN_STAGE = ''Double_Opt_In'',
      EXACTTARGET_CONFIRMATION = ''Confirmation'',
      newsletter_field =
        (\<lambda>nl. if nl = ''slug'' then Some ''TITLE_UNKNOWN''
              else if nl = ''slug2'' then Some ''TITLE2_UNKNOWN''
              else None),
      newsletter_names = [''slug'', ''slug2''],
      today = ''2013-07-02'',
      gmttime = (\<lambda>n. ''Tue, 02 Jul 2013 00:10:00 GMT''),
      uuid4 = ''new-token'',
      exacttarget = et\<rparr>"

definition accepts_all :: "call list \<Rightarrow> call \<Rightarrow> exn option" where
  "accepts_all log c = None"

definition wants_created_date :: "call list \<Rightarrow> call \<Rightarrow> exn option" where
  "wants_created_date log c =
     (case c of
        AddRecord target rcd \<Rightarrow>
          if rcd ''CREATED_DATE_'' = None
          then Some (NewsletterException ''Missing required field CREATED_DATE_'')
          else None
      | TriggerSend w addr tok fmt \<Rightarrow> None)"

definition rejects_created_date :: "call list \<Rightarrow> call \<Rightarrow> exn option" where
  "rejects_created_date log c =
     (if is_add_record c
      then Some (NewsletterException ''Missing required field CREATED_DATE_'')
      else None)"

definition rejects_all :: "call list \<Rightarrow> call \<Rightarrow> exn option" where
  "rejects_all log c =
     (if is_add_record c then Some (NewsletterException ''Server error'') else None)"

definition trigger_fails :: "call list \<Rightarrow> call \<Rightarrow> exn option" where
  "trigger_fails log c =
     (if is_add_record c then None else Some (NewsletterException ''Trigger failed''))"

text \<open>The subscriber table holding the subscriber of \<open>example_row\<close>.\<close>

definition example_subscribers :: subscribers where
  "example_subscribers = [\<lparr>sub_email = ''dude@example.com'', sub_token = ''token''\<rparr>]"

text \<open>A platform that rejects a record without \<open>CREATED_DATE_\<close> and fails
  every trigger.\<close>

definition recovers_trigger_fails :: "call list \<Rightarrow> call \<Rightarrow> exn option" where
  "recovers_trigger_fails log c =
     (case c of
        AddRecord target rcd \<Rightarrow>
          if rcd ''CREATED_DATE_'' = None
          then Some (NewsletterException ''Missing required field CREATED_DATE_'')
          else None
      | TriggerSend w addr tok fmt \<Rightarrow> Some (NewsletterException ''Trigger failed''))"

section \<open>news/views.py: update_user_task\<close>

text \<open>\<open>user_data and user_data['status'] == 'ok'\<close>.\<close>

definition status_ok :: "user_data_result option \<Rightarrow> bool" where
  "status_ok user_data =
     (case user_data of
        Some (UserData u) \<Rightarrow> ud_status u = ''ok''
      | _ \<Rightarrow> False)"

text \<open>
  \<open>lookup_subscriber(token, email)\<close> on the subscriber table \<open>db\<close>: the
  triple \<open>(subscriber, user_data, created)\<close> and the table. Only the truthy
  arguments are passed on as \<open>kwargs\<close>.
\<close>

definition lookup_subscriber ::
  "env \<Rightarrow> subscribers \<Rightarrow> string option \<Rightarrow> string option
     \<Rightarrow> exn + (subscriber option \<times> user_data_result option \<times> bool \<times> subscribers)" where
  "lookup_subscriber e db token email =
     (if \<not> (truthy token \<or> truthy email) then Inl (PyException (MSG_EMAIL_OR_TOKEN_REQUIRED e))
      else
        (let kw_token = (if truthy token then token else None);
             kw_email = (if truthy email then email else None)
         in case objects_get db kw_token kw_email of
              Inr subscriber \<Rightarrow> Inr (Some subscriber, None, False, db)
            | Inl DoesNotExist \<Rightarrow>
                raising (get_user_data e db kw_token kw_email True) (\<lambda>(user_data, db).
                  if status_ok user_data then
                    raising (objects_get db kw_token kw_email) (\<lambda>subscriber.
                      Inr (Some subscriber, user_data, True, db))
                  else
                    (case kw_email of
                       Some m \<Rightarrow>
                         (let (subscriber, created, db) = get_or_create db m (new_token e)
                          in Inr (Some subscriber, user_data, created, db))
                     | None \<Rightarrow> Inr (None, user_data, True, db)))
            | Inl ex \<Rightarrow> Inl ex))"







text \<open>The end of a run whose write left the calls \<open>log\<close>: the welcome
  selected, if any, is sent to the address and token of the record, and the
  answer of the platform to it is the outcome of the run.\<close>

definition triggered :: "task_env \<Rightarrow> prepared \<Rightarrow> call list \<Rightarrow> outcome \<Rightarrow> bool" where
  "triggered e p log out \<longleftrightarrow>
     filter is_add_record (calls out) = log
     \<and> (case p_welcome p of
           None \<Rightarrow> calls out = log \<and> raised out = None
         | Some w \<Rightarrow>
             if w = [] then calls out = log \<and> raised out = None
             else
               (\<exists>addr tok.
                  p_record p ''EMAIL_ADDRESS_'' = Some addr
                  \<and> p_record p ''TOKEN'' = Some tok
                  \<and> calls out
                      = log @ [TriggerSend w addr tok (get_default (p_record p) ''EMAIL_FORMAT_'' ''H'')]
                  \<and> raised out
                      = exacttarget e log
                          (TriggerSend w addr tok (get_default (p_record p) ''EMAIL_FORMAT_'' ''H''))))"




section \<open>Properties\<close>

lemma length_lower [simp]: "length (lower s) = length s"
  by (simp add: lower_def)

lemma lower_Nil_iff [simp]: "lower s = [] \<longleftrightarrow> s = []"
  by (simp add: lower_def)

subsection \<open>Case-insensitive comparison\<close>

lemma case_table:
  "distinct unicode_uppercase" "distinct unicode_lowercase"
  "set unicode_uppercase \<inter> set unicode_lowercase = {}"
  "length unicode_uppercase = length unicode_lowercase"
  by (simp_all add: unicode_uppercase_def unicode_lowercase_def)

lemma lower_char_not_upper:
  assumes "c \<notin> set unicode_uppercase"
  shows "lower_char c = c"
proof -
  have "c \<notin> set (map fst (zip unicode_uppercase unicode_lowercase))"
    using assms case_table(4) by simp
  then have "map_of (zip unicode_uppercase unicode_lowercase) c = None"
    by (simp add: map_of_eq_None_iff)
  then show ?thesis by (simp add: lower_char_def)
qed

lemma lower_char_upper:
  assumes "c \<in> set unicode_uppercase"
  shows "(c, lower_char c) \<in> set (zip unicode_uppercase unicode_lowercase)"
proof -
  have "c \<in> set (map fst (zip unicode_uppercase unicode_lowercase))"
    using assms case_table(4) by simp
  then obtain d where d: "map_of (zip unicode_uppercase unicode_lowercase) c = Some d"
    by (cases "map_of (zip unicode_uppercase unicode_lowercase) c")
       (simp_all add: map_of_eq_None_iff)
  then have "(c, d) \<in> set (zip unicode_uppercase unicode_lowercase)"
    by (rule map_of_SomeD)
  then show ?thesis using d by (simp add: lower_char_def)
qed

lemma zip_left_unique:
  assumes "(c, x) \<in> set (zip unicode_uppercase unicode_lowercase)"
    and "(c, y) \<in> set (zip unicode_uppercase unicode_lowercase)"
  shows "x = y"
proof -
  have d: "distinct (map fst (zip unicode_uppercase unicode_lowercase))"
    using case_table(1) case_table(4) by simp
  from map_of_is_SomeI [OF d assms(1)] map_of_is_SomeI [OF d assms(2)]
  show ?thesis by simp
qed

lemma zip_right_unique:
  assumes "(x, c) \<in> set (zip unicode_uppercase unicode_lowercase)"
    and "(y, c) \<in> set (zip unicode_uppercase unicode_lowercase)"
  shows "x = y"
proof -
  have z: "(c, x) \<in> set (zip unicode_lowercase unicode_uppercase)"
    using assms(1) by (auto simp: set_zip)
  have z': "(c, y) \<in> set (zip unicode_lowercase unicode_uppercase)"
    using assms(2) by (auto simp: set_zip)
  have d: "distinct (map fst (zip unicode_lowercase unicode_uppercase))"
    using case_table(2) case_table(4) by simp
  from map_of_is_SomeI [OF d z] map_of_is_SomeI [OF d z']
  show ?thesis by simp
qed

lemma lower_char_pair:
  assumes "(c, d) \<in> set (zip unicode_uppercase unicode_lowercase)"
  shows "lower_char c = d" and "lower_char d = d"
proof -
  have "c \<in> set unicode_uppercase" using assms by (rule set_zip_leftD)
  then have "(c, lower_char c) \<in> set (zip unicode_uppercase unicode_lowercase)"
    by (rule lower_char_upper)
  then show "lower_char c = d" using assms by (rule zip_left_unique)
  have "d \<in> set unicode_lowercase" using assms by (rule set_zip_rightD)
  then have "d \<notin> set unicode_uppercase" using case_table(3) by blast
  then show "lower_char d = d" by (rule lower_char_not_upper)
qed

lemma lower_char_eq_iff: "lower_char c = lower_char d \<longleftrightarrow> same_letter c d"
proof
  assume e: "lower_char c = lower_char d"
  show "same_letter c d"
  proof (cases "c \<in> set unicode_uppercase")
    case True
    note c = lower_char_upper [OF True]
    show ?thesis
    proof (cases "d \<in> set unicode_uppercase")
      case True
      have "(d, lower_char c) \<in> set (zip unicode_uppercase unicode_lowercase)"
        unfolding e using True by (rule lower_char_upper)
      with c have "c = d" by (rule zip_right_unique)
      then show ?thesis by (simp add: same_letter_def)
    next
      case False
      then have "lower_char d = d" by (rule lower_char_not_upper)
      with c e show ?thesis by (simp add: same_letter_def)
    qed
  next
    case False
    then have c: "lower_char c = c" by (rule lower_char_not_upper)
    show ?thesis
    proof (cases "d \<in> set unicode_uppercase")
      case True
      then have "(d, lower_char d) \<in> set (zip unicode_uppercase unicode_lowercase)"
        by (rule lower_char_upper)
      with c e show ?thesis by (simp add: same_letter_def)
    next
      case False
      then have "lower_char d = d" by (rule lower_char_not_upper)
      with c e show ?thesis by (simp add: same_letter_def)
    qed
  qed
next
  assume s: "same_letter c d"
  show "lower_char c = lower_char d"
  proof -
    consider "c = d" | "(c, d) \<in> set (zip unicode_uppercase unicode_lowercase)"
      | "(d, c) \<in> set (zip unicode_uppercase unicode_lowercase)"
      using s unfolding same_letter_def by blast
    then show ?thesis
    proof cases
      case 1 then show ?thesis by simp
    next
      case 2 then show ?thesis using lower_char_pair [OF 2] by simp
    next
      case 3 then show ?thesis using lower_char_pair [OF 3] by simp
    qed
  qed
qed

lemma lower_eq_iff: "lower a = lower b \<longleftrightarrow> same_ignoring_case a b"
  unfolding lower_def same_ignoring_case_def list_all2_eq list_all2_map1 list_all2_map2
    lower_char_eq_iff ..


text \<open>
  Claim C10. \<open>language_code_is_valid\<close> raises \<open>TypeError\<close> on anything but a
  string. On a string it answers True exactly when the code is empty, or
  equals a newsletter language case-insensitively, or has length 2 or 5 and
  its first two characters equal, case-insensitively, the first two
  characters of a newsletter language; on every other string it answers
  False.
\<close>

theorem language_code_is_valid_spec:
  "language_code_is_valid langs (PyStr code) =
     Inr (code = []
          \<or> (\<exists>lang \<in> set langs. same_ignoring_case code lang)
          \<or> (length code = 2 \<or> length code = 5)
            \<and> (\<exists>lang \<in> set langs. same_ignoring_case (take 2 code) (take 2 lang)))
   \<and> language_code_is_valid langs PyNone = Inl (TypeError ''Language code must be a string'')
   \<and> language_code_is_valid langs (PyBool b) = Inl (TypeError ''Language code must be a string'')
   \<and> language_code_is_valid langs (PyInt i) = Inl (TypeError ''Language code must be a string'')"
proof -
  have t: "take 2 (lower code) = take 2 (lower lang)
           \<longleftrightarrow> same_ignoring_case (take 2 code) (take 2 lang)" for lang
    using lower_eq_iff [of "take 2 code" "take 2 lang"] by (simp add: lower_def take_map)
  have m: "lower code \<in> lower ` set langs \<longleftrightarrow> (\<exists>lang \<in> set langs. same_ignoring_case code lang)"
    using lower_eq_iff [of code] by blast
  have two: "take 2 (lower code) \<noteq> []" if "length code = 2 \<or> length code = 5"
    using that by auto
  have ex: "list_ex (\<lambda>lang. take 2 (lower code) = take 2 lang) ([] # map lower langs)
            \<longleftrightarrow> (\<exists>lang \<in> set langs. same_ignoring_case (take 2 code) (take 2 lang))"
    if "length code = 2 \<or> length code = 5"
    using two [OF that] t by (auto simp: list_ex_iff)
  have 1: "language_code_is_valid langs (PyStr code) =
     Inr (code = []
          \<or> lower code \<in> lower ` set langs
          \<or> (length code = 2 \<or> length code = 5)
            \<and> (\<exists>lang \<in> set langs. same_ignoring_case (take 2 code) (take 2 lang)))"
    using ex by (auto simp: language_code_is_valid_def Let_def)
  show ?thesis
    unfolding 1 m by (simp add: language_code_is_valid_def)
qed

theorem language_code_is_valid_spec_witness:
  "language_code_is_valid [''en-US'', ''fr''] (PyStr ''FR'') = Inr True
   \<and> language_code_is_valid [''en-US'', ''fr''] (PyStr ''En-gb'') = Inr True
   \<and> language_code_is_valid [''en-US'', ''fr''] (PyStr ''eN-Us'') = Inr True
   \<and> language_code_is_valid [''en-US'', ''fr''] (PyStr ''de'') = Inr False
   \<and> language_code_is_valid [''en-US'', ''fr''] (PyStr ''fra'') = Inr False
   \<and> language_code_is_valid [[CHR 0xC9, CHR ''N'']] (PyStr [CHR 0xE9, CHR ''n'']) = Inr True"
proof -
  have s: "same_letter c c" for c by (simp add: same_letter_def)
  have u: "same_letter CHR ''F'' CHR ''f''" "same_letter CHR ''R'' CHR ''r''"
    "same_letter CHR ''E'' CHR ''e''" "same_letter CHR ''N'' CHR ''n''"
    "same_letter CHR ''U'' CHR ''u''" "same_letter CHR ''s'' CHR ''S''"
    "same_letter CHR ''n'' CHR ''N''" "same_letter CHR 0xE9 CHR 0xC9"
    by (simp_all add: same_letter_def unicode_uppercase_def unicode_lowercase_def)
  have n: "\<not> same_letter CHR ''d'' CHR ''e''" "\<not> same_letter CHR ''d'' CHR ''f''"
    by (simp_all add: same_letter_def unicode_uppercase_def unicode_lowercase_def)
  show ?thesis
    using language_code_is_valid_spec [of "[''en-US'', ''fr'']" "''FR''"]
      language_code_is_valid_spec [of "[''en-US'', ''fr'']" "''En-gb''"]
      language_code_is_valid_spec [of "[''en-US'', ''fr'']" "''eN-Us''"]
      language_code_is_valid_spec [of "[''en-US'', ''fr'']" "''de''"]
      language_code_is_valid_spec [of "[''en-US'', ''fr'']" "''fra''"]
      language_code_is_valid_spec [of "[[CHR 0xC9, CHR ''N'']]" "[CHR 0xE9, CHR ''n'']"]
      s u n
    by (simp add: same_ignoring_case_def)
qed

subsection \<open>The snapshot of get_user_data\<close>

lemma look_for_user_NotFound:
  "not_in_database e database email token fl \<Longrightarrow>
   look_for_user e database email token fl = Inr NotFound"
  by (simp add: not_in_database_def look_for_user_def)

lemma look_for_user_FoundTrue:
  "in_database e (EXACTTARGET_CONFIRMATION e) email token fl user \<Longrightarrow>
   look_for_user e (EXACTTARGET_CONFIRMATION e) email token fl = Inr FoundTrue"
  by (simp add: in_database_def look_for_user_def)

lemma look_for_user_FoundUser:
  "in_database e database email token fl user \<Longrightarrow> has_user_fields user \<Longrightarrow>
   database \<noteq> EXACTTARGET_CONFIRMATION e \<Longrightarrow>
   \<exists>u. look_for_user e database email token fl = Inr (FoundUser u)"
  by (auto simp: in_database_def look_for_user_def has_user_fields_def getitem_def raising_def)

text \<open>No path of \<open>get_user_data\<close> assigns \<open>pending\<close> after its initial
  \<open>pending = False\<close>: every snapshot it returns has \<open>pending = False\<close>.\<close>

lemma get_user_data_try_pending:
  "get_user_data_try e token email = Inr (Some u) \<Longrightarrow> \<not> ud_pending u"
  by (auto simp: get_user_data_try_def Let_def set_flags_def found_user.defs
           split: sum.splits look_result.splits if_splits)

lemma get_user_data_never_pending:
  "get_user_data e db token email sync_data = Inr (Some (UserData u), db') \<Longrightarrow> \<not> ud_pending u"
  using get_user_data_try_pending [of e token email u]
  by (auto simp: get_user_data_def split: sum.splits exn.splits option.splits)

text \<open>
  Claim C2. A subscriber found in the double-opt-in database and not in the
  master database should be reported with \<open>pending = True\<close> (the docstring of
  \<open>get_user_data\<close>: "pending is True if they are in the double-opt-in database
  and not in the confirmed or master databases"). The code reports
  \<open>pending = False\<close>: here for a subscriber who is in the double-opt-in
  database only.
\<close>

theorem get_user_data_pending_only:
  "get_user_data (example_env pending_only) [] None (Some ''dude@example.com'') False
   = Inr (Some (UserData
       \<lparr>ud_status = ''ok'', ud_email = ''dude@example.com'', ud_format = ''H'',
        ud_country = ''us'', ud_lang = ''en'', ud_token = ''token'',
        ud_created_date = ''2013-07-01'', ud_newsletters = [''slug''],
        ud_confirmed = False, ud_pending = False, ud_master = False\<rparr>), [])"
  by (simp add: get_user_data_def get_user_data_try_def look_for_user_def example_env_def
      pending_only_def example_row_def user_fields_def truthy_def getitem_def raising_def
      get_default_def or_default_def set_flags_def found_user.defs)

text \<open>
  Claim C3. A subscriber who is not in the master database, is in the
  double-opt-in database (with the fields \<open>look_for_user\<close> reads) and is in the
  confirmation database gets a snapshot with \<open>confirmed = True\<close> and
  \<open>master = False\<close>. A subscriber who is in neither the master nor the
  double-opt-in database gets \<open>None\<close>, not an error.
\<close>

theorem get_user_data_confirmation_lag:
  "(not_in_database e (EXACTTARGET_DATA e) email token (user_fields e)
    \<and> in_database e (EXACTTARGET_OPTIN_STAGE e) email token (user_fields e) user
    \<and> has_user_fields user
    \<and> EXACTTARGET_OPTIN_STAGE e \<noteq> EXACTTARGET_CONFIRMATION e
    \<and> in_database e (EXACTTARGET_CONFIRMATION e) email token [''Token''] row
    \<longrightarrow> (\<exists>u db'. get_user_data e db token email sync_data = Inr (Some (UserData u), db')
                \<and> ud_confirmed u \<and> \<not> ud_master u))
   \<and> (not_in_database e (EXACTTARGET_DATA e) email token (user_fields e)
      \<and> not_in_database e (EXACTTARGET_OPTIN_STAGE e) email token (user_fields e)
      \<longrightarrow> get_user_data e db token email sync_data = Inr (None, db))"
proof (intro conjI impI)
  assume a: "not_in_database e (EXACTTARGET_DATA e) email token (user_fields e)
    \<and> in_database e (EXACTTARGET_OPTIN_STAGE e) email token (user_fields e) user
    \<and> has_user_fields user
    \<and> EXACTTARGET_OPTIN_STAGE e \<noteq> EXACTTARGET_CONFIRMATION e
    \<and> in_database e (EXACTTARGET_CONFIRMATION e) email token [''Token''] row"
  then obtain u where
    u: "look_for_user e (EXACTTARGET_OPTIN_STAGE e) email token (user_fields e) = Inr (FoundUser u)"
    using look_for_user_FoundUser by blast
  from a have m: "look_for_user e (EXACTTARGET_DATA e) email token (user_fields e) = Inr NotFound"
    by (simp add: look_for_user_NotFound)
  from a have c: "look_for_user e (EXACTTARGET_CONFIRMATION e) email token [''Token''] = Inr FoundTrue"
    using look_for_user_FoundTrue by blast
  have "get_user_data_try e token email =
          Inr (Some (found_user.extend u
                 \<lparr>ud_confirmed = True, ud_pending = False, ud_master = False\<rparr>))"
    by (simp add: get_user_data_try_def m u c set_flags_def)
  then show "\<exists>u db'. get_user_data e db token email sync_data = Inr (Some (UserData u), db')
                \<and> ud_confirmed u \<and> \<not> ud_master u"
    by (simp add: get_user_data_def found_user.defs)
next
  assume a: "not_in_database e (EXACTTARGET_DATA e) email token (user_fields e)
      \<and> not_in_database e (EXACTTARGET_OPTIN_STAGE e) email token (user_fields e)"
  then have "get_user_data_try e token email = Inr None"
    by (simp add: get_user_data_try_def look_for_user_NotFound)
  then show "get_user_data e db token email sync_data = Inr (None, db)"
    by (simp add: get_user_data_def)
qed

theorem get_user_data_confirmation_lag_witness:
  "(\<exists>u db'. get_user_data (example_env pending_and_confirmed) [] None
               (Some ''dude@example.com'') True = Inr (Some (UserData u), db')
            \<and> ud_confirmed u \<and> \<not> ud_master u)
   \<and> get_user_data (example_env nobody) [] None (Some ''dude@example.com'') True = Inr (None, [])"
proof -
  have 1: "not_in_database (example_env pending_and_confirmed)
             (EXACTTARGET_DATA (example_env pending_and_confirmed))
             (Some ''dude@example.com'') None (user_fields (example_env pending_and_confirmed))"
    by (simp add: not_in_database_def example_env_def pending_and_confirmed_def truthy_def)
  have 2: "in_database (example_env pending_and_confirmed)
             (EXACTTARGET_OPTIN_STAGE (example_env pending_and_confirmed))
             (Some ''dude@example.com'') None (user_fields (example_env pending_and_confirmed))
             example_row"
    by (simp add: in_database_def example_env_def pending_and_confirmed_def truthy_def)
  have 3: "has_user_fields example_row"
    by (simp add: has_user_fields_def example_row_def)
  have 4: "EXACTTARGET_OPTIN_STAGE (example_env pending_and_confirmed)
             \<noteq> EXACTTARGET_CONFIRMATION (example_env pending_and_confirmed)"
    by (simp add: example_env_def)
  have 5: "in_database (example_env pending_and_confirmed)
             (EXACTTARGET_CONFIRMATION (example_env pending_and_confirmed))
             (Some ''dude@example.com'') None [''Token''] [''Token'' \<mapsto> ''token'']"
    by (simp add: in_database_def example_env_def pending_and_confirmed_def truthy_def)
  have 6: "not_in_database (example_env nobody) (EXACTTARGET_DATA (example_env nobody))
             (Some ''dude@example.com'') None (user_fields (example_env nobody))"
    by (simp add: not_in_database_def example_env_def nobody_def)
  have 7: "not_in_database (example_env nobody) (EXACTTARGET_OPTIN_STAGE (example_env nobody))
             (Some ''dude@example.com'') None (user_fields (example_env nobody))"
    by (simp add: not_in_database_def example_env_def nobody_def)
  show ?thesis
    using get_user_data_confirmation_lag
            [of "example_env pending_and_confirmed" "Some ''dude@example.com''" None
                example_row "[''Token'' \<mapsto> ''token'']" "[]" True]
          get_user_data_confirmation_lag
            [of "example_env nobody" "Some ''dude@example.com''" None _ _ "[]" True]
          1 2 3 4 5 6 7
    by blast
qed

subsection \<open>The flag loops of parse_newsletters\<close>

lemma flg_ne_date: "a @ ''_FLG'' \<noteq> b @ ''_DATE''"
proof
  assume "a @ ''_FLG'' = b @ ''_DATE''"
  then have "last (a @ ''_FLG'') = last (b @ ''_DATE'')" by simp
  then show False by simp
qed

lemma flag_key_last:
  "suffix ''_FLG'' k \<or> suffix ''_DATE'' k \<Longrightarrow> last k = CHR ''G'' \<or> last k = CHR ''E''"
  by (auto simp: suffix_def)

lemma set_flag_other:
  "\<not> suffix ''_FLG'' k \<Longrightarrow> \<not> suffix ''_DATE'' k \<Longrightarrow> set_flag e flag nls r k = r k"
  by (induction nls arbitrary: r) (auto simp: suffix_def split: option.splits)



lemma set_flag_cong: "r k = r' k \<Longrightarrow> set_flag e flag nls r k = set_flag e flag nls r' k"
proof (induction nls arbitrary: r r')
  case Nil
  then show ?case by simp
next
  case (Cons a nls)
  show ?case
    unfolding set_flag.simps
    by (rule Cons.IH) (simp add: Cons.prems split: option.split)
qed

lemma set_flag_dom: "r k \<noteq> None \<Longrightarrow> set_flag e flag nls r k \<noteq> None"
proof (induction nls arbitrary: r)
  case Nil
  then show ?case by simp
next
  case (Cons a nls)
  have "(case newsletter_field e a of
           None \<Rightarrow> r
         | Some name \<Rightarrow>
             if name \<noteq> []
             then r(name @ ''_FLG'' \<mapsto> flag, name @ ''_DATE'' \<mapsto> today e)
             else r) k \<noteq> None"
    using Cons.prems by (simp split: option.split)
  then show ?case
    using Cons.IH by simp
qed

lemma set_flag_keeps_flag:
  "r (name @ ''_FLG'') = Some flag \<Longrightarrow> set_flag e flag nls r (name @ ''_FLG'') = Some flag"
proof (induction nls arbitrary: r)
  case Nil
  then show ?case by simp
next
  case (Cons a nls)
  show ?case
    by (cases "newsletter_field e a") (simp_all add: Cons.IH Cons.prems flg_ne_date)
qed

lemma set_flag_keeps_date:
  "r (name @ ''_DATE'') = Some (today e) \<Longrightarrow>
   set_flag e flag nls r (name @ ''_DATE'') = Some (today e)"
proof (induction nls arbitrary: r)
  case Nil
  then show ?case by simp
next
  case (Cons a nls)
  show ?case
    by (cases "newsletter_field e a") (simp_all add: Cons.IH Cons.prems)
qed


lemma set_flag_sets:
  "nl \<in> set nls \<Longrightarrow> newsletter_field e nl = Some name \<Longrightarrow> name \<noteq> [] \<Longrightarrow>
   set_flag e flag nls r (name @ ''_FLG'') = Some flag
   \<and> set_flag e flag nls r (name @ ''_DATE'') = Some (today e)"
proof (induction nls arbitrary: r)
  case Nil
  then show ?case by simp
next
  case (Cons a nls)
  show ?case
  proof (cases "a = nl")
    case True
    then show ?thesis using Cons.prems
      by (simp add: set_flag_keeps_flag set_flag_keeps_date flg_ne_date)
  next
    case False
    with Cons.prems have "nl \<in> set nls" by simp
    from Cons.IH [OF this Cons.prems(2) Cons.prems(3)]
    show ?thesis by simp
  qed
qed

lemma set_flag_untouched:
  "\<forall>nl \<in> set nls. newsletter_field e nl \<noteq> Some name \<Longrightarrow>
   set_flag e flag nls r (name @ ''_FLG'') = r (name @ ''_FLG'')"
proof (induction nls arbitrary: r)
  case Nil
  then show ?case by simp
next
  case (Cons a nls)
  from Cons.prems have rest: "\<forall>nl \<in> set nls. newsletter_field e nl \<noteq> Some name"
    and a: "newsletter_field e a \<noteq> Some name" by simp_all
  show ?case
    using a by (simp add: Cons.IH [OF rest] flg_ne_date split: option.split)
qed


subsection \<open>parse_newsletters\<close>

lemma types_distinct:
  "SUBSCRIBE \<noteq> UNSUBSCRIBE" "SUBSCRIBE \<noteq> SET" "UNSUBSCRIBE \<noteq> SET"
  "UNSUBSCRIBE \<noteq> SUBSCRIBE" "SET \<noteq> SUBSCRIBE" "SET \<noteq> UNSUBSCRIBE"
  by (simp_all add: SUBSCRIBE_def UNSUBSCRIBE_def SET_def)

lemma parse_SUBSCRIBE:
  "parse_newsletters e r SUBSCRIBE s = set_flag e ''Y'' (map strip (split_comma s)) r"
  by (simp add: parse_newsletters_def Let_def types_distinct)

lemma parse_SET:
  "parse_newsletters e r SET s =
     set_flag e ''N''
       (filter (\<lambda>nl. nl \<notin> set (map strip (split_comma s))) (remdups (newsletter_names e)))
       (set_flag e ''Y'' (map strip (split_comma s)) r)"
  by (simp add: parse_newsletters_def Let_def types_distinct)

lemma parse_newsletters_other:
  "\<not> suffix ''_FLG'' k \<Longrightarrow> \<not> suffix ''_DATE'' k \<Longrightarrow> parse_newsletters e r type s k = r k"
  by (simp add: parse_newsletters_def Let_def set_flag_other)


lemma subscribe_named:
  assumes "nl \<in> set (map strip (split_comma s))"
    and "newsletter_field e nl = Some name" and "name \<noteq> []"
  shows "parse_newsletters e r SUBSCRIBE s (name @ ''_FLG'') = Some ''Y''
         \<and> parse_newsletters e r SUBSCRIBE s (name @ ''_DATE'') = Some (today e)"
  unfolding parse_SUBSCRIBE
  by (rule set_flag_sets [OF assms])

lemma set_named:
  assumes "nl \<in> set (map strip (split_comma s))"
    and "newsletter_field e nl = Some name" and "name \<noteq> []"
  shows "parse_newsletters e r SET s (name @ ''_FLG'') \<noteq> None
         \<and> parse_newsletters e r SET s (name @ ''_DATE'') = Some (today e)"
proof -
  let ?nls = "map strip (split_comma s)"
  let ?uns = "filter (\<lambda>nl. nl \<notin> set ?nls) (remdups (newsletter_names e))"
  have y: "set_flag e ''Y'' ?nls r (name @ ''_FLG'') = Some ''Y''"
    and d: "set_flag e ''Y'' ?nls r (name @ ''_DATE'') = Some (today e)"
    using set_flag_sets [OF assms, of "''Y''" r] by simp_all
  have y': "set_flag e ''Y'' ?nls r (name @ ''_FLG'') \<noteq> None"
    unfolding y by simp
  have 1: "set_flag e ''N'' ?uns (set_flag e ''Y'' ?nls r) (name @ ''_FLG'') \<noteq> None"
    using y' by (rule set_flag_dom [where r = "set_flag e ''Y'' (map strip (split_comma s)) r"
                                   and k = "name @ ''_FLG''"])
  have 2: "set_flag e ''N'' ?uns (set_flag e ''Y'' ?nls r) (name @ ''_DATE'') = Some (today e)"
    using d by (rule set_flag_keeps_date)
  show ?thesis
    unfolding parse_SET using 1 2 by (rule conjI)
qed

lemma set_named_Y:
  assumes "nl \<in> set (map strip (split_comma s))"
    and "newsletter_field e nl = Some name" and "name \<noteq> []"
    and "\<forall>nl' \<in> set (newsletter_names e). nl' \<notin> set (map strip (split_comma s)) \<longrightarrow>
           newsletter_field e nl' \<noteq> Some name"
  shows "parse_newsletters e r SET s (name @ ''_FLG'') = Some ''Y''"
proof -
  let ?nls = "map strip (split_comma s)"
  let ?uns = "filter (\<lambda>nl. nl \<notin> set ?nls) (remdups (newsletter_names e))"
  have y: "set_flag e ''Y'' ?nls r (name @ ''_FLG'') = Some ''Y''"
    using set_flag_sets [OF assms(1) assms(2) assms(3), of "''Y''" r] by simp
  have "\<forall>nl' \<in> set ?uns. newsletter_field e nl' \<noteq> Some name"
    using assms(4) by simp
  from set_flag_untouched [OF this, of "''N''" "set_flag e ''Y'' ?nls r"]
  show ?thesis
    unfolding parse_SET using y by simp
qed




subsection \<open>The record update_user submits\<close>

lemma flag_key_ne [simp]:
  "last k \<noteq> CHR ''G'' \<Longrightarrow> (name @ ''_FLG'' = k) = False"
  "last k \<noteq> CHR ''G'' \<Longrightarrow> (k = name @ ''_FLG'') = False"
  "last k \<noteq> CHR ''E'' \<Longrightarrow> (name @ ''_DATE'' = k) = False"
  "last k \<noteq> CHR ''E'' \<Longrightarrow> (k = name @ ''_DATE'') = False"
  by auto

lemma flag_key_not_suffix:
  "last k \<noteq> CHR ''G'' \<Longrightarrow> last k \<noteq> CHR ''E'' \<Longrightarrow>
   \<not> suffix ''_FLG'' k \<and> \<not> suffix ''_DATE'' k"
  by (auto simp: suffix_def)

lemma add_extra_fields_lang:
  "add_extra_fields data extra_fields r ''LANGUAGE_ISO2'' =
     (case data ''lang'' of None \<Rightarrow> r ''LANGUAGE_ISO2'' | Some v \<Rightarrow> Some v)"
  by (simp add: extra_fields_def split: option.split)

lemma add_extra_fields_other:
  "k \<noteq> ''COUNTRY_'' \<Longrightarrow> k \<noteq> ''LANGUAGE_ISO2'' \<Longrightarrow> k \<noteq> ''SOURCE_URL'' \<Longrightarrow>
   add_extra_fields data extra_fields r k = r k"
  by (simp add: extra_fields_def split: option.split)


lemma base_fields_format: "base_fields data email ''EMAIL_FORMAT_'' = Some (email_format data)"
  by (simp add: base_fields_def Let_def)

lemma base_fields_email: "base_fields data email ''EMAIL_ADDRESS_'' = Some email"
  by (simp add: base_fields_def Let_def add_extra_fields_other)

lemma base_fields_lang: "base_fields data email ''LANGUAGE_ISO2'' = data ''lang''"
  by (simp add: base_fields_def Let_def add_extra_fields_lang split: option.split)


lemma parse_fixed:
  "last k \<noteq> CHR ''G'' \<Longrightarrow> last k \<noteq> CHR ''E'' \<Longrightarrow> parse_newsletters e r type s k = r k"
  using flag_key_not_suffix [of k] parse_newsletters_other [of k e r type s] by simp

text \<open>What \<open>prepare\<close> returns when the request carries an email.\<close>

lemma prepare_result:
  assumes "data ''email'' = Some email"
  shows "\<exists>p. prepare e db data type = Inr p
           \<and> (\<forall>name. p_record p (name @ ''_FLG'') =
                 parse_newsletters e (base_fields data email) type
                   (get_default data ''newsletters'' []) (name @ ''_FLG''))
           \<and> (\<forall>name. p_record p (name @ ''_DATE'') =
                 parse_newsletters e (base_fields data email) type
                   (get_default data ''newsletters'' []) (name @ ''_DATE''))
           \<and> p_record p ''EMAIL_FORMAT_'' = Some (email_format data)
           \<and> p_record p ''EMAIL_ADDRESS_'' = Some email
           \<and> p_record p ''TOKEN'' \<noteq> None
           \<and> p_welcome p =
               (case data ''lang'' of
                  None \<Rightarrow> if data ''trigger_welcome'' = Some ''Y'' then Some ''39'' else None
                | Some l \<Rightarrow>
                    if CONFIRM_SENDS l \<noteq> None \<and> type = SUBSCRIBE then CONFIRM_SENDS l
                    else if data ''trigger_welcome'' = Some ''Y'' then Some ''39'' else None)"
proof -
  obtain sub created db' where g: "get_or_create db email [] = (sub, created, db')"
    by (cases "get_or_create db email []") auto
  show ?thesis
    using assms g
    by (cases "data ''lang''")
       (simp_all add: prepare_def raising_def getitem_def Let_def parse_fixed
          base_fields_format base_fields_email base_fields_lang)
qed

subsection \<open>The remote calls of update_user\<close>

lemma prepare_facts:
  assumes "prepare e db data type = Inr p"
  shows "\<exists>email tok. data ''email'' = Some email
           \<and> p_record p ''EMAIL_ADDRESS_'' = Some email
           \<and> p_record p ''TOKEN'' = Some tok
           \<and> p_record p ''EMAIL_FORMAT_'' = Some (email_format data)"
proof (cases "data ''email''")
  case None
  then have "prepare e db data type = Inl (KeyError ''email'')"
    by (simp add: prepare_def raising_def getitem_def)
  with assms show ?thesis by simp
next
  case (Some email)
  have "\<exists>q. prepare e db data type = Inr q
            \<and> p_record q ''EMAIL_FORMAT_'' = Some (email_format data)
            \<and> p_record q ''EMAIL_ADDRESS_'' = Some email
            \<and> p_record q ''TOKEN'' \<noteq> None"
    using prepare_result [where data = data and email = email and e = e and db = db and type = type]
          Some by blast
  with assms show ?thesis using Some by auto
qed


lemma add_record_recover_cases:
  assumes "add_record_recover e p = (r, log, rcd)"
  shows "(log = [AddRecord (p_target p) (p_record p)] \<and> rcd = p_record p)
         \<or> (log = [AddRecord (p_target p) (p_record p),
                    AddRecord (p_target p) ((p_record p)(''CREATED_DATE_'' \<mapsto> gmttime e (p_clock p)))]
            \<and> rcd = (p_record p)(''CREATED_DATE_'' \<mapsto> gmttime e (p_clock p)))"
  using assms
  by (auto simp: add_record_recover_def Let_def split: option.splits if_splits)


lemma update_user_calls_shape:
  assumes "prepare e db data type = Inr p"
  shows "\<exists>log rest. calls (update_user e db data authed_email type optin) = log @ rest
           \<and> (log = [AddRecord (p_target p) (p_record p)]
              \<or> log = [AddRecord (p_target p) (p_record p),
                        AddRecord (p_target p)
                          ((p_record p)(''CREATED_DATE_'' \<mapsto> gmttime e (p_clock p)))])
           \<and> (rest = [] \<or> (\<exists>w addr tok fmt. rest = [TriggerSend w addr tok fmt]))"
proof -
  obtain r log rcd where a: "add_record_recover e p = (r, log, rcd)"
    by (cases "add_record_recover e p") auto
  obtain r' log' where s: "send_welcome e (p_welcome p) log rcd = (r', log')"
    by (cases "send_welcome e (p_welcome p) log rcd") auto
  have l: "log' = log \<or> (\<exists>w addr tok fmt. log' = log @ [TriggerSend w addr tok fmt])"
    using s by (auto simp: send_welcome_def Let_def split: option.splits if_splits sum.splits)
  have c: "log = [AddRecord (p_target p) (p_record p)]
           \<or> log = [AddRecord (p_target p) (p_record p),
                     AddRecord (p_target p)
                       ((p_record p)(''CREATED_DATE_'' \<mapsto> gmttime e (p_clock p)))]"
    using add_record_recover_cases [OF a] by blast
  have "calls (update_user e db data authed_email type optin) = log @ []
        \<or> (\<exists>w addr tok fmt. calls (update_user e db data authed_email type optin)
               = log @ [TriggerSend w addr tok fmt])"
    using assms a s l by (cases r) (auto simp: update_user_def)
  with c show ?thesis by blast
qed

lemma prepare_projr:
  assumes "data ''email'' = Some email"
  shows "prepare e db data type = Inr (projr (prepare e db data type))"
proof -
  have "\<exists>q. prepare e db data type = Inr q"
    using prepare_result [where data = data and email = email and e = e and db = db and type = type]
          assms by blast
  then show ?thesis by auto
qed

text \<open>The definitions a run of \<open>update_user\<close> on a concrete request unfolds.\<close>

lemmas eval_update_user =
  update_user_def prepare_def raising_def getitem_def get_default_def Let_def
  base_fields_def email_format_def extra_fields_def get_or_create_def example_subscribers_def
  example_task_env_def add_record_recover_def send_welcome_def caught_def find_def
  parse_SUBSCRIBE parse_SET types_distinct CONFIRM_SENDS_def lower_def upper_def lower_char_def
  upper_char_def unicode_uppercase_def unicode_lowercase_def strip_def whitespace_def

subsection \<open>The email format\<close>

text \<open>
  Claim C7. A request that supplies no format should leave the remote format
  untouched: the record submitted should carry no \<open>EMAIL_FORMAT_\<close> field
  (\<open>test_update_user_without_format_doesnt_send_format\<close>: "Basket doesn't
  send any format to ET", with a record of the eight other fields).
  \<open>update_user\<close> of \<open>apps/news/tasks.py\<close> submits \<open>EMAIL_FORMAT_ = 'H'\<close>: here
  for the request of that test, whose record has the eight fields and
  \<open>EMAIL_FORMAT_\<close>.
\<close>

theorem update_user_without_format_sends_format:
  "[''email'' \<mapsto> ''dude@example.com'', ''lang'' \<mapsto> ''en'', ''country'' \<mapsto> ''US'',
    ''newsletters'' \<mapsto> ''slug''] ''format'' = None
   \<and> (\<exists>rcd.
        calls (update_user (example_task_env accepts_all) example_subscribers
          [''email'' \<mapsto> ''dude@example.com'', ''lang'' \<mapsto> ''en'', ''country'' \<mapsto> ''US'',
           ''newsletters'' \<mapsto> ''slug''] None SUBSCRIBE True)
        = [AddRecord ''Master_Subscribers'' rcd]
        \<and> dom rcd = {''EMAIL_ADDRESS_'', ''LANGUAGE_ISO2'', ''TITLE_UNKNOWN_FLG'', ''TOKEN'',
                      ''MODIFIED_DATE_'', ''EMAIL_PERMISSION_STATUS_'', ''TITLE_UNKNOWN_DATE'',
                      ''COUNTRY_'', ''EMAIL_FORMAT_''}
        \<and> rcd ''EMAIL_FORMAT_'' = Some ''H'')"
  by (auto simp: eval_update_user accepts_all_def)

subsection \<open>The welcome message\<close>

text \<open>
  Claim C8. The id of a welcome message should be the language joined to the
  newsletter's welcome id, with \<open>_T\<close> appended for the text format
  (\<open>test_update_user_works_with_no_lang\<close> expects \<open>'en_Welcome_T'\<close> for a
  request without language in format \<open>'T'\<close>). \<open>update_user\<close> of
  \<open>apps/news/tasks.py\<close> sends the fixed id \<open>'39'\<close>, with the format as a
  separate argument: here for a request without language, in format \<open>'T'\<close>,
  that asks for the welcome.
\<close>

theorem update_user_welcome_id_fixed:
  "\<exists>rcd.
      calls (update_user (example_task_env accepts_all) example_subscribers
        [''email'' \<mapsto> ''dude@example.com'', ''country'' \<mapsto> ''US'', ''format'' \<mapsto> ''T'',
         ''newsletters'' \<mapsto> ''slug'', ''trigger_welcome'' \<mapsto> ''Y''] None SUBSCRIBE True)
      = [AddRecord ''Master_Subscribers'' rcd,
         TriggerSend ''39'' ''dude@example.com'' ''token'' ''T'']"
  by (simp add: eval_update_user accepts_all_def)

subsection \<open>Recovery from a missing creation date\<close>

text \<open>
  Claim C4. When the platform rejects the first \<open>add_record\<close> with a
  \<open>NewsletterException\<close> or an \<open>UnauthorizedException\<close> whose message contains
  \<open>CREATED_DATE_\<close>, \<open>update_user\<close> submits the record once more, with
  \<open>CREATED_DATE_\<close> added, and these are all the records it submits; if the
  platform rejects the second one as well, that exception leaves \<open>update_user\<close>
  and nothing more is called. When the message does not contain the field
  name, or the exception is of another class, the first call is the only one
  and its exception leaves \<open>update_user\<close>.
\<close>

theorem update_user_created_date_recovery:
  assumes "prepare e db data type = Inr p"
    and "exacttarget e [] (AddRecord (p_target p) (p_record p)) = Some ex"
  shows "(\<forall>message. caught ex = Some message \<and> find message ''CREATED_DATE_'' \<noteq> - 1 \<longrightarrow>
            filter is_add_record (calls (update_user e db data authed_email type optin))
              = [AddRecord (p_target p) (p_record p),
                 AddRecord (p_target p)
                   ((p_record p)(''CREATED_DATE_'' \<mapsto> gmttime e (p_clock p)))]
            \<and> (\<forall>ex2. exacttarget e [AddRecord (p_target p) (p_record p)]
                       (AddRecord (p_target p)
                          ((p_record p)(''CREATED_DATE_'' \<mapsto> gmttime e (p_clock p)))) = Some ex2
                  \<longrightarrow> raised (update_user e db data authed_email type optin) = Some ex2
                      \<and> calls (update_user e db data authed_email type optin)
                          = [AddRecord (p_target p) (p_record p),
                             AddRecord (p_target p)
                               ((p_record p)(''CREATED_DATE_'' \<mapsto> gmttime e (p_clock p)))]))
         \<and> (caught ex = None \<or> (\<exists>message. caught ex = Some message
                                     \<and> find message ''CREATED_DATE_'' = - 1) \<longrightarrow>
              calls (update_user e db data authed_email type optin)
                = [AddRecord (p_target p) (p_record p)]
              \<and> raised (update_user e db data authed_email type optin) = Some ex)"
proof (intro conjI allI impI)
  fix message
  assume m: "caught ex = Some message \<and> find message ''CREATED_DATE_'' \<noteq> - 1"
  let ?c1 = "AddRecord (p_target p) (p_record p)"
  let ?r2 = "(p_record p)(''CREATED_DATE_'' \<mapsto> gmttime e (p_clock p))"
  let ?c2 = "AddRecord (p_target p) ?r2"
  have a: "add_record_recover e p = (exacttarget e [?c1] ?c2, [?c1, ?c2], ?r2)"
    using assms(2) m by (simp add: add_record_recover_def Let_def)
  obtain r' log' where s: "send_welcome e (p_welcome p) [?c1, ?c2] ?r2 = (r', log')"
    by (cases "send_welcome e (p_welcome p) [?c1, ?c2] ?r2") auto
  have l: "log' = [?c1, ?c2] \<or> (\<exists>w addr tok fmt. log' = [?c1, ?c2] @ [TriggerSend w addr tok fmt])"
    using s by (auto simp: send_welcome_def Let_def split: option.splits if_splits sum.splits)
  show "filter is_add_record (calls (update_user e db data authed_email type optin)) = [?c1, ?c2]"
    using assms(1) a s l
    by (cases "exacttarget e [?c1] ?c2") (auto simp: update_user_def)
  fix ex2
  assume "exacttarget e [?c1] ?c2 = Some ex2"
  then show "raised (update_user e db data authed_email type optin) = Some ex2"
    and "calls (update_user e db data authed_email type optin) = [?c1, ?c2]"
    using assms(1) a by (simp_all add: update_user_def)
next
  assume m: "caught ex = None \<or> (\<exists>message. caught ex = Some message
                                     \<and> find message ''CREATED_DATE_'' = - 1)"
  have a: "add_record_recover e p
             = (Some ex, [AddRecord (p_target p) (p_record p)], p_record p)"
    using assms(2) m by (auto simp: add_record_recover_def Let_def)
  show "calls (update_user e db data authed_email type optin)
          = [AddRecord (p_target p) (p_record p)]"
    and "raised (update_user e db data authed_email type optin) = Some ex"
    using assms(1) a by (simp_all add: update_user_def)
qed


theorem update_user_created_date_recovery_witness:
  "length (calls (update_user (example_task_env rejects_created_date) example_subscribers
       [''email'' \<mapsto> ''dude@example.com'', ''newsletters'' \<mapsto> ''slug''] None SUBSCRIBE True)) = 2
   \<and> raised (update_user (example_task_env rejects_created_date) example_subscribers
       [''email'' \<mapsto> ''dude@example.com'', ''newsletters'' \<mapsto> ''slug''] None SUBSCRIBE True)
       = Some (NewsletterException ''Missing required field CREATED_DATE_'')
   \<and> length (calls (update_user (example_task_env rejects_all) example_subscribers
       [''email'' \<mapsto> ''dude@example.com'', ''newsletters'' \<mapsto> ''slug''] None SUBSCRIBE True)) = 1
   \<and> raised (update_user (example_task_env rejects_all) example_subscribers
       [''email'' \<mapsto> ''dude@example.com'', ''newsletters'' \<mapsto> ''slug''] None SUBSCRIBE True)
       = Some (NewsletterException ''Server error'')"
proof -
  let ?D = "[''email'' \<mapsto> ''dude@example.com'', ''newsletters'' \<mapsto> ''slug'']"
  let ?E = "example_task_env rejects_created_date"
  let ?P = "projr (prepare ?E example_subscribers ?D SUBSCRIBE)"
  let ?E' = "example_task_env rejects_all"
  let ?P' = "projr (prepare ?E' example_subscribers ?D SUBSCRIBE)"
  have p: "prepare ?E example_subscribers ?D SUBSCRIBE = Inr ?P"
    by (rule prepare_projr [where email = "''dude@example.com''"]) simp
  have p': "prepare ?E' example_subscribers ?D SUBSCRIBE = Inr ?P'"
    by (rule prepare_projr [where email = "''dude@example.com''"]) simp
  have x: "exacttarget ?E [] (AddRecord (p_target ?P) (p_record ?P))
             = Some (NewsletterException ''Missing required field CREATED_DATE_'')"
    by (simp add: example_task_env_def rejects_created_date_def)
  have x2: "exacttarget ?E [AddRecord (p_target ?P) (p_record ?P)]
              (AddRecord (p_target ?P)
                 ((p_record ?P)(''CREATED_DATE_'' \<mapsto> gmttime ?E (p_clock ?P))))
             = Some (NewsletterException ''Missing required field CREATED_DATE_'')"
    by (simp add: example_task_env_def rejects_created_date_def)
  have x': "exacttarget ?E' [] (AddRecord (p_target ?P') (p_record ?P'))
             = Some (NewsletterException ''Server error'')"
    by (simp add: example_task_env_def rejects_all_def)
  have c: "caught (NewsletterException ''Missing required field CREATED_DATE_'')
             = Some ''Missing required field CREATED_DATE_''
           \<and> find ''Missing required field CREATED_DATE_'' ''CREATED_DATE_'' \<noteq> - 1"
    by (simp add: caught_def find_def)
  have c': "\<exists>message. caught (NewsletterException ''Server error'') = Some message
              \<and> find message ''CREATED_DATE_'' = - 1"
    by (simp add: caught_def find_def)
  have 1: "calls (update_user ?E example_subscribers ?D None SUBSCRIBE True)
             = [AddRecord (p_target ?P) (p_record ?P),
                AddRecord (p_target ?P)
                  ((p_record ?P)(''CREATED_DATE_'' \<mapsto> gmttime ?E (p_clock ?P)))]
           \<and> raised (update_user ?E example_subscribers ?D None SUBSCRIBE True)
             = Some (NewsletterException ''Missing required field CREATED_DATE_'')"
    using update_user_created_date_recovery [OF p x, of None True] c x2 by blast
  have 2: "calls (update_user ?E' example_subscribers ?D None SUBSCRIBE True)
             = [AddRecord (p_target ?P') (p_record ?P')]
           \<and> raised (update_user ?E' example_subscribers ?D None SUBSCRIBE True)
             = Some (NewsletterException ''Server error'')"
    using update_user_created_date_recovery [OF p' x', of None True] c' by blast
  show ?thesis
    using 1 2 by simp
qed

subsection \<open>The trigger after the write\<close>

lemma send_welcome_triggered:
  assumes "prepare e db data type = Inr p"
    and "add_record_recover e p = (None, log, rcd)"
  shows "triggered e p log (update_user e db data authed_email type optin)"
proof -
  let ?out = "update_user e db data authed_email type optin"
  have c: "(log = [AddRecord (p_target p) (p_record p)] \<and> rcd = p_record p)
         \<or> (log = [AddRecord (p_target p) (p_record p),
                    AddRecord (p_target p) ((p_record p)(''CREATED_DATE_'' \<mapsto> gmttime e (p_clock p)))]
            \<and> rcd = (p_record p)(''CREATED_DATE_'' \<mapsto> gmttime e (p_clock p)))"
    using assms(2) by (rule add_record_recover_cases)
  obtain email tok where k: "p_record p ''EMAIL_ADDRESS_'' = Some email"
      "p_record p ''TOKEN'' = Some tok"
    using prepare_facts [OF assms(1)] by blast
  have k': "rcd ''EMAIL_ADDRESS_'' = Some email" "rcd ''TOKEN'' = Some tok"
    "get_default rcd ''EMAIL_FORMAT_'' ''H'' = get_default (p_record p) ''EMAIL_FORMAT_'' ''H''"
    using c k by (auto simp: get_default_def)
  have fl: "filter is_add_record log = log" using c by auto
  have o: "?out = (case send_welcome e (p_welcome p) log rcd of
                     (r, log') \<Rightarrow> \<lparr>raised = r, calls = log'\<rparr>)"
    using assms by (simp add: update_user_def)
  show ?thesis
    unfolding triggered_def o
    by (simp add: send_welcome_def getitem_def k k' fl Let_def split: option.split)
qed


text \<open>
  Claim C9. When the platform accepts the write of \<open>update_user\<close> (it
  accepts the first \<open>add_record\<close>, or it rejects it with a message naming
  \<open>CREATED_DATE_\<close> and accepts the resubmission), the welcome message
  selected, if any, is sent with \<open>trigger_send\<close> after the records. Whatever
  the platform answers to the trigger, the records submitted are the ones of
  the write and no call follows the trigger: a failure of the trigger leaves
  \<open>update_user\<close> as its exception, and the write is neither repeated nor
  undone.
\<close>

theorem update_user_trigger_after_write:
  assumes "prepare e db data type = Inr p"
  shows "(exacttarget e [] (AddRecord (p_target p) (p_record p)) = None
          \<longrightarrow> triggered e p [AddRecord (p_target p) (p_record p)]
                (update_user e db data authed_email type optin))
         \<and> ((\<exists>ex message.
                exacttarget e [] (AddRecord (p_target p) (p_record p)) = Some ex
                \<and> caught ex = Some message \<and> find message ''CREATED_DATE_'' \<noteq> - 1)
             \<and> exacttarget e [AddRecord (p_target p) (p_record p)]
                  (AddRecord (p_target p)
                     ((p_record p)(''CREATED_DATE_'' \<mapsto> gmttime e (p_clock p)))) = None
          \<longrightarrow> triggered e p
                [AddRecord (p_target p) (p_record p),
                 AddRecord (p_target p)
                   ((p_record p)(''CREATED_DATE_'' \<mapsto> gmttime e (p_clock p)))]
                (update_user e db data authed_email type optin))"
proof (intro conjI impI)
  assume "exacttarget e [] (AddRecord (p_target p) (p_record p)) = None"
  then have "add_record_recover e p
               = (None, [AddRecord (p_target p) (p_record p)], p_record p)"
    by (simp add: add_record_recover_def Let_def)
  with assms show "triggered e p [AddRecord (p_target p) (p_record p)]
                (update_user e db data authed_email type optin)"
    by (rule send_welcome_triggered)
next
  assume a: "(\<exists>ex message.
                exacttarget e [] (AddRecord (p_target p) (p_record p)) = Some ex
                \<and> caught ex = Some message \<and> find message ''CREATED_DATE_'' \<noteq> - 1)
             \<and> exacttarget e [AddRecord (p_target p) (p_record p)]
                  (AddRecord (p_target p)
                     ((p_record p)(''CREATED_DATE_'' \<mapsto> gmttime e (p_clock p)))) = None"
  then have "add_record_recover e p
               = (None,
                  [AddRecord (p_target p) (p_record p),
                   AddRecord (p_target p)
                     ((p_record p)(''CREATED_DATE_'' \<mapsto> gmttime e (p_clock p)))],
                  (p_record p)(''CREATED_DATE_'' \<mapsto> gmttime e (p_clock p)))"
    by (auto simp: add_record_recover_def Let_def)
  with assms show "triggered e p
                [AddRecord (p_target p) (p_record p),
                 AddRecord (p_target p)
                   ((p_record p)(''CREATED_DATE_'' \<mapsto> gmttime e (p_clock p)))]
                (update_user e db data authed_email type optin)"
    by (rule send_welcome_triggered)
qed

theorem update_user_trigger_after_write_witness:
  "(\<exists>rcd.
      calls (update_user (example_task_env trigger_fails) example_subscribers
        [''email'' \<mapsto> ''dude@example.com'', ''newsletters'' \<mapsto> ''slug'', ''lang'' \<mapsto> ''fr'']
        None SUBSCRIBE True)
      = [AddRecord ''Double_Opt_In'' rcd,
         TriggerSend ''fr_confirmation_email'' ''dude@example.com'' ''token'' ''H''])
   \<and> raised (update_user (example_task_env trigger_fails) example_subscribers
        [''email'' \<mapsto> ''dude@example.com'', ''newsletters'' \<mapsto> ''slug'', ''lang'' \<mapsto> ''fr'']
        None SUBSCRIBE True) = Some (NewsletterException ''Trigger failed'')
   \<and> (\<exists>rcd rcd'.
      calls (update_user (example_task_env recovers_trigger_fails) example_subscribers
        [''email'' \<mapsto> ''dude@example.com'', ''newsletters'' \<mapsto> ''slug'', ''trigger_welcome'' \<mapsto> ''Y'']
        None SUBSCRIBE True)
      = [AddRecord ''Master_Subscribers'' rcd, AddRecord ''Master_Subscribers'' rcd',
         TriggerSend ''39'' ''dude@example.com'' ''token'' ''H''])
   \<and> raised (update_user (example_task_env recovers_trigger_fails) example_subscribers
        [''email'' \<mapsto> ''dude@example.com'', ''newsletters'' \<mapsto> ''slug'', ''trigger_welcome'' \<mapsto> ''Y'']
        None SUBSCRIBE True) = Some (NewsletterException ''Trigger failed'')"
proof -
  let ?D1 = "[''email'' \<mapsto> ''dude@example.com'', ''newsletters'' \<mapsto> ''slug'', ''lang'' \<mapsto> ''fr'']"
  let ?E1 = "example_task_env trigger_fails"
  let ?P1 = "projr (prepare ?E1 example_subscribers ?D1 SUBSCRIBE)"
  let ?D2 = "[''email'' \<mapsto> ''dude@example.com'', ''newsletters'' \<mapsto> ''slug'',
              ''trigger_welcome'' \<mapsto> ''Y'']"
  let ?E2 = "example_task_env recovers_trigger_fails"
  let ?P2 = "projr (prepare ?E2 example_subscribers ?D2 SUBSCRIBE)"
  have p1: "prepare ?E1 example_subscribers ?D1 SUBSCRIBE = Inr ?P1"
    by (rule prepare_projr [where email = "''dude@example.com''"]) simp
  have p2: "prepare ?E2 example_subscribers ?D2 SUBSCRIBE = Inr ?P2"
    by (rule prepare_projr [where email = "''dude@example.com''"]) simp
  have f1: "p_welcome ?P1 = Some ''fr_confirmation_email''"
    "p_target ?P1 = ''Double_Opt_In''"
    "p_record ?P1 ''EMAIL_ADDRESS_'' = Some ''dude@example.com''"
    "p_record ?P1 ''TOKEN'' = Some ''token''"
    "p_record ?P1 ''EMAIL_FORMAT_'' = Some ''H''"
    by (simp_all add: eval_update_user)
  have f2: "p_welcome ?P2 = Some ''39''"
    "p_target ?P2 = ''Master_Subscribers''"
    "p_record ?P2 ''EMAIL_ADDRESS_'' = Some ''dude@example.com''"
    "p_record ?P2 ''TOKEN'' = Some ''token''"
    "p_record ?P2 ''EMAIL_FORMAT_'' = Some ''H''"
    "p_record ?P2 ''CREATED_DATE_'' = None"
    by (simp_all add: eval_update_user)
  have a1: "exacttarget ?E1 [] (AddRecord (p_target ?P1) (p_record ?P1)) = None"
    by (simp add: example_task_env_def trigger_fails_def)
  have t: "\<And>log w addr tok fmt. exacttarget ?E1 log (TriggerSend w addr tok fmt)
             = Some (NewsletterException ''Trigger failed'')"
    "\<And>log w addr tok fmt. exacttarget ?E2 log (TriggerSend w addr tok fmt)
             = Some (NewsletterException ''Trigger failed'')"
    by (simp_all add: example_task_env_def trigger_fails_def recovers_trigger_fails_def)
  have a2: "\<exists>ex message.
                exacttarget ?E2 [] (AddRecord (p_target ?P2) (p_record ?P2)) = Some ex
                \<and> caught ex = Some message \<and> find message ''CREATED_DATE_'' \<noteq> - 1"
    using f2(6)
    by (simp add: example_task_env_def recovers_trigger_fails_def caught_def find_def)
  have b2: "exacttarget ?E2 [AddRecord (p_target ?P2) (p_record ?P2)]
                  (AddRecord (p_target ?P2)
                     ((p_record ?P2)(''CREATED_DATE_'' \<mapsto> gmttime ?E2 (p_clock ?P2)))) = None"
    by (simp add: example_task_env_def recovers_trigger_fails_def)
  have 1: "triggered ?E1 ?P1 [AddRecord (p_target ?P1) (p_record ?P1)]
             (update_user ?E1 example_subscribers ?D1 None SUBSCRIBE True)"
    using update_user_trigger_after_write [OF p1, of None True] a1 by blast
  have 2: "triggered ?E2 ?P2
             [AddRecord (p_target ?P2) (p_record ?P2),
              AddRecord (p_target ?P2)
                ((p_record ?P2)(''CREATED_DATE_'' \<mapsto> gmttime ?E2 (p_clock ?P2)))]
             (update_user ?E2 example_subscribers ?D2 None SUBSCRIBE True)"
    using update_user_trigger_after_write [OF p2, of None True] a2 b2 by blast
  show ?thesis
    using 1 2 unfolding triggered_def f1 f2 by (simp add: t get_default_def f1 f2)
qed

subsection \<open>The newsletter flags update_user submits\<close>




text \<open>
  Claim C1. Subscribing again to a newsletter the subscriber already has
  should leave that newsletter out of the write
  (\<open>test_resubscribe_doesnt_update_newsletter\<close>: "we do not pass that
  newsletter's _FLG and _DATE to ET", with a record of the seven other
  fields). \<open>update_user\<close> of \<open>apps/news/tasks.py\<close> takes no snapshot of the
  subscriber and writes the flag and today's date of every newsletter named:
  here for the request of that test, whose record has the seven fields,
  \<open>TITLE_UNKNOWN_FLG\<close> and \<open>TITLE_UNKNOWN_DATE\<close>.
\<close>

theorem update_user_resubscribe_writes_date:
  "\<exists>rcd.
      calls (update_user (example_task_env accepts_all) example_subscribers
        [''email'' \<mapsto> ''dude@example.com'', ''lang'' \<mapsto> ''en'', ''country'' \<mapsto> ''US'',
         ''newsletters'' \<mapsto> ''slug'', ''format'' \<mapsto> ''H''] None SUBSCRIBE True)
      = [AddRecord ''Master_Subscribers'' rcd]
      \<and> dom rcd = {''EMAIL_FORMAT_'', ''EMAIL_ADDRESS_'', ''LANGUAGE_ISO2'', ''TOKEN'',
                    ''MODIFIED_DATE_'', ''EMAIL_PERMISSION_STATUS_'', ''COUNTRY_'',
                    ''TITLE_UNKNOWN_FLG'', ''TITLE_UNKNOWN_DATE''}
      \<and> rcd ''TITLE_UNKNOWN_FLG'' = Some ''Y''
      \<and> rcd ''TITLE_UNKNOWN_DATE'' = Some ''2013-07-02''"
  by (auto simp: eval_update_user accepts_all_def)

subsection \<open>Validation in update_user_task\<close>

lemma lookup_subscriber_found:
  assumes "lookup_subscriber e db None (Some m) = Inr (sub, user_data, created, db')"
    and "m \<noteq> []"
  shows "sub \<noteq> None"
  using assms
  by (auto simp: lookup_subscriber_def truthy_def Let_def raising_def
           split: sum.splits exn.splits if_splits prod.splits)

lemma lookup_subscriber_local:
  assumes "objects_get db None (Some m) = Inr s" and "m \<noteq> []"
  shows "lookup_subscriber e db None (Some m) = Inr (Some s, None, False, db)"
  using assms by (simp add: lookup_subscriber_def truthy_def)

lemma language_code_is_valid_str:
  "language_code_is_valid langs (PyStr l) = Inr True
   \<or> language_code_is_valid langs (PyStr l) = Inr False"
  by (simp add: language_code_is_valid_def Let_def)



















end
